theory Spec2Isabelle
  imports Complex_Main "HOL-Library.Word" "HOL-Library.Sublist" "HOL-Library.Signed_Division"
begin

section \<open>Strings: white space and trimming\<close>

text \<open>
  Go strings are byte sequences; they are modelled as \<open>string\<close> (a list of 8-bit
  characters). \<open>strings.TrimSpace\<close> removes leading and trailing white space as defined by
  Unicode: it decodes UTF-8 runes from the left until the first one that is not a space,
  then from the right. The white-space runes and their UTF-8 encodings are
  U+0009..U+000D, U+0020, U+0085, U+00A0, U+1680, U+2000..U+200A, U+2028, U+2029,
  U+202F, U+205F and U+3000. A byte sequence that is not one of these encodings (invalid
  UTF-8 included, which decodes to U+FFFD) is not a space.
\<close>

definition space_runes :: "string list" where
  "space_runes =
     [[CHR 0x09], [CHR 0x0A], [CHR 0x0B], [CHR 0x0C], [CHR 0x0D], [CHR 0x20],
      [CHR 0xC2, CHR 0x85], [CHR 0xC2, CHR 0xA0],
      [CHR 0xE1, CHR 0x9A, CHR 0x80],
      [CHR 0xE2, CHR 0x80, CHR 0x80], [CHR 0xE2, CHR 0x80, CHR 0x81],
      [CHR 0xE2, CHR 0x80, CHR 0x82], [CHR 0xE2, CHR 0x80, CHR 0x83],
      [CHR 0xE2, CHR 0x80, CHR 0x84], [CHR 0xE2, CHR 0x80, CHR 0x85],
      [CHR 0xE2, CHR 0x80, CHR 0x86], [CHR 0xE2, CHR 0x80, CHR 0x87],
      [CHR 0xE2, CHR 0x80, CHR 0x88], [CHR 0xE2, CHR 0x80, CHR 0x89],
      [CHR 0xE2, CHR 0x80, CHR 0x8A],
      [CHR 0xE2, CHR 0x80, CHR 0xA8], [CHR 0xE2, CHR 0x80, CHR 0xA9],
      [CHR 0xE2, CHR 0x80, CHR 0xAF], [CHR 0xE2, CHR 0x81, CHR 0x9F],
      [CHR 0xE3, CHR 0x80, CHR 0x80]]"

text \<open>The first of the encodings \<open>rs\<close> that the string starts with, if any.\<close>

definition leading :: "string list \<Rightarrow> string \<Rightarrow> string option" where
  "leading rs s = find (\<lambda>r. take (length r) s = r) rs"

text \<open>Remove the encodings \<open>rs\<close> from the front for as long as one of them is there.\<close>

function drop_runes :: "string list \<Rightarrow> string \<Rightarrow> string" where
  "drop_runes rs s =
     (case leading rs s of
        None \<Rightarrow> s
      | Some r \<Rightarrow> if r = [] then s else drop_runes rs (drop (length r) s))"
  by pat_completeness auto
termination
proof (relation "measure (\<lambda>(rs, s). length s)")
  show "wf (measure (\<lambda>(rs, s). length s))" by simp
next
  fix rs :: "string list" and s r :: string
  assume "leading rs s = Some r" and "r \<noteq> []"
  then have "take (length r) s = r"
    by (auto simp: leading_def find_Some_iff)
  with \<open>r \<noteq> []\<close> have "s \<noteq> []" by auto
  with \<open>r \<noteq> []\<close> show "((rs, drop (length r) s), (rs, s)) \<in> measure (\<lambda>(rs, s). length s)"
    by simp
qed

definition TrimLeft :: "string \<Rightarrow> string" where
  "TrimLeft s = drop_runes space_runes s"

definition TrimRight :: "string \<Rightarrow> string" where
  "TrimRight s = rev (drop_runes (map rev space_runes) (rev s))"

definition TrimSpace :: "string \<Rightarrow> string" where
  "TrimSpace s = TrimRight (TrimLeft s)"

text \<open>A string is trimmed when it neither starts nor ends with a white-space rune.\<close>

definition trimmed :: "string \<Rightarrow> bool" where
  "trimmed s \<longleftrightarrow> leading space_runes s = None \<and> leading (map rev space_runes) (rev s) = None"

section \<open>The quoted-aware tokenizer\<close>

text \<open>
  \<open>s[lo:hi]\<close> in Go panics unless \<open>lo \<le> hi \<le> len(s)\<close>; the model returns \<open>None\<close> there.
\<close>

definition slice :: "string \<Rightarrow> nat \<Rightarrow> nat \<Rightarrow> string option" where
  "slice s lo hi = (if lo \<le> hi \<and> hi \<le> length s then Some (take (hi - lo) (drop lo s)) else None)"

text \<open>
  The loop of \<open>splitIgnoreQuoted\<close> (util.go), with its variables \<open>parts\<close>, \<open>start\<close>,
  \<open>end\<close> and \<open>inQuotes\<close> as arguments and the index \<open>i\<close> counting up to \<open>len(s)\<close>.
  The \<open>switch\<close> tests the quote character first, so a delimiter that is itself the quote
  character never splits. After the loop the last token is appended.
\<close>

function split_loop ::
  "string \<Rightarrow> char \<Rightarrow> nat \<Rightarrow> string list \<Rightarrow> nat \<Rightarrow> nat \<Rightarrow> bool \<Rightarrow> string list option" where
  "split_loop s sep i parts start end' inQuotes =
     (if i < length s then
        (if s ! i = CHR 0x22 then
           split_loop s sep (i + 1) parts start (i + 1) (\<not> inQuotes)
         else if s ! i = sep then
           (if \<not> inQuotes then
              (case slice s start end' of
                 None \<Rightarrow> None
               | Some t \<Rightarrow> split_loop s sep (i + 1) (parts @ [TrimSpace t]) (i + 1) (i + 1) inQuotes)
            else split_loop s sep (i + 1) parts start (i + 1) inQuotes)
         else split_loop s sep (i + 1) parts start (i + 1) inQuotes)
      else
        (case slice s start end' of
           None \<Rightarrow> None
         | Some t \<Rightarrow> Some (parts @ [TrimSpace t])))"
  by pat_completeness auto
termination
  by (relation "measure (\<lambda>(s, sep, i, parts, start, end', inQuotes). length s - i)") auto

definition splitIgnoreQuoted :: "string \<Rightarrow> char \<Rightarrow> string list option" where
  "splitIgnoreQuoted s sep = split_loop s sep 0 [] 0 0 False"

text \<open>
  The tokenizer as the specification words it: scan left to right with an inside-quotes
  flag; a quote toggles the flag and stays in the token; the delimiter ends the token only
  when the flag is false; the end of the input ends the last token. \<open>segments\<close> gives the
  tokens before trimming.
\<close>

fun segments_from :: "char \<Rightarrow> bool \<Rightarrow> string \<Rightarrow> string \<Rightarrow> string list" where
  "segments_from sep inQ tok [] = [tok]"
| "segments_from sep inQ tok (c # cs) =
     (if c = CHR 0x22 then segments_from sep (\<not> inQ) (tok @ [c]) cs
      else if c = sep \<and> \<not> inQ then tok # segments_from sep False [] cs
      else segments_from sep inQ (tok @ [c]) cs)"

definition segments :: "char \<Rightarrow> string \<Rightarrow> string list" where
  "segments sep s = segments_from sep False [] s"

definition tokens_spec :: "string \<Rightarrow> char \<Rightarrow> string list" where
  "tokens_spec s sep = map TrimSpace (segments sep s)"

text \<open>Joining tokens with the delimiter.\<close>

fun join :: "char \<Rightarrow> string list \<Rightarrow> string" where
  "join sep [] = []"
| "join sep [t] = t"
| "join sep (t # ts) = t @ sep # join sep ts"


section \<open>Numbers in clause arguments\<close>

text \<open>
  \<open>strconv.ParseInt(s, 10, 64)\<close> and \<open>strconv.Atoi\<close> (with \<open>int\<close> 64 bits wide): an
  optional sign, then one or more decimal digits, within the range of a signed 64-bit
  integer; \<open>None\<close> stands for the returned error. \<open>strconv.ParseUint(s, 10, 8)\<close> takes
  digits only, up to 255.
\<close>

type_synonym int64 = "64 word"

definition digit_val :: "char \<Rightarrow> nat option" where
  "digit_val c =
     (let n = (of_char c :: nat) in if 48 \<le> n \<and> n \<le> 57 then Some (n - 48) else None)"

fun digits_from :: "nat \<Rightarrow> string \<Rightarrow> nat option" where
  "digits_from acc [] = Some acc"
| "digits_from acc (c # cs) =
     (case digit_val c of None \<Rightarrow> None | Some d \<Rightarrow> digits_from (10 * acc + d) cs)"

definition digits :: "string \<Rightarrow> nat option" where
  "digits s = (if s = [] then None else digits_from 0 s)"

definition ParseInt :: "string \<Rightarrow> int64 option" where
  "ParseInt s =
     (case s of
        [] \<Rightarrow> None
      | c # cs \<Rightarrow>
          (if c = CHR ''-'' then
             (case digits cs of
                None \<Rightarrow> None
              | Some n \<Rightarrow> if n \<le> 2 ^ 63 then Some (word_of_int (- int n)) else None)
           else
             (case digits (if c = CHR ''+'' then cs else s) of
                None \<Rightarrow> None
              | Some n \<Rightarrow> if n < 2 ^ 63 then Some (word_of_nat n) else None)))"

definition Atoi :: "string \<Rightarrow> int64 option" where
  "Atoi s = ParseInt s"

definition ParseUint8 :: "string \<Rightarrow> nat option" where
  "ParseUint8 s = (case digits s of None \<Rightarrow> None | Some n \<Rightarrow> if n \<le> 255 then Some n else None)"

section \<open>Values, types and reflection\<close>

text \<open>
  The types a destination field or a pipeline value can have. \<open>TValue\<close> is
  \<open>reflect.Value\<close> and \<open>TRType\<close> is \<open>*reflect.rtype\<close>, the dynamic type of a
  \<open>reflect.Type\<close>; both occur because the code stores such objects in the current value.
  Named types other than \<open>time.Time\<close> are not modelled.
\<close>

datatype gtype =
    TBool | TInt | TInt64 | TFloat64 | TString | TTime
  | TPtr gtype | TSlice gtype | TMap gtype gtype | TInterface
  | TValue | TRType

datatype kind =
    KBool | KInt | KInt64 | KFloat64 | KString | KStruct | KPtr | KSlice | KMap | KInterface

fun kind_of :: "gtype \<Rightarrow> kind" where
  "kind_of TBool = KBool"
| "kind_of TInt = KInt"
| "kind_of TInt64 = KInt64"
| "kind_of TFloat64 = KFloat64"
| "kind_of TString = KString"
| "kind_of TTime = KStruct"
| "kind_of (TPtr t) = KPtr"
| "kind_of (TSlice t) = KSlice"
| "kind_of (TMap k t) = KMap"
| "kind_of TInterface = KInterface"
| "kind_of TValue = KStruct"
| "kind_of TRType = KPtr"

text \<open>
  Go values. \<open>'f\<close> stands for \<open>float64\<close> and \<open>'t\<close> for \<open>time.Time\<close>; their operations
  come from the library and are parameters of the model (see \<open>env\<close>). A pointer, slice
  or map is \<open>None\<close> when nil. \<open>GIface\<close> is the content of a slot of type \<open>interface{}\<close>.
  \<open>GValue\<close> is a \<open>reflect.Value\<close> object (\<open>None\<close>: the zero Value) and \<open>GType\<close> a
  \<open>reflect.Type\<close> object.

  The pipeline's current value, of Go type \<open>interface{}\<close>, is a \<open>gval option\<close>: \<open>None\<close>
  is the nil interface. What \<open>encoding/json\<close> decodes into it is nil, \<open>GBool\<close>,
  \<open>GFloat\<close>, \<open>GString\<close>, \<open>GSlice TInterface\<close> or \<open>GMap TString TInterface\<close>.
\<close>

datatype ('f, 't) gval =
    GBool bool
  | GInt int64
  | GInt64 int64
  | GFloat 'f
  | GString string
  | GTime 't
  | GPtr gtype "('f, 't) gval option"
  | GSlice gtype "('f, 't) gval list option"
  | GMap gtype gtype "(string \<times> ('f, 't) gval) list option"
  | GIface "('f, 't) gval option"
  | GValue "('f, 't) gval option"
  | GType "gtype option"

fun typeof :: "('f, 't) gval \<Rightarrow> gtype" where
  "typeof (GBool b) = TBool"
| "typeof (GInt n) = TInt"
| "typeof (GInt64 n) = TInt64"
| "typeof (GFloat x) = TFloat64"
| "typeof (GString s) = TString"
| "typeof (GTime t) = TTime"
| "typeof (GPtr t p) = TPtr t"
| "typeof (GSlice t xs) = TSlice t"
| "typeof (GMap k t m) = TMap k t"
| "typeof (GIface i) = TInterface"
| "typeof (GValue v) = TValue"
| "typeof (GType t) = TRType"

text \<open>
  The library functions the code calls and the model does not look into. \<open>None\<close> is a
  returned error. \<open>call_method v name\<close> stands for \<open>MethodByName\<close> followed by the
  signature test and the call: \<open>None\<close> when \<open>v\<close> has no method of that name taking
  nothing and returning one boolean, else the boolean returned.
\<close>

record ('f, 't) env =
  parseFloat :: "string \<Rightarrow> 'f option"
  f_add :: "'f \<Rightarrow> 'f \<Rightarrow> 'f"
  f_sub :: "'f \<Rightarrow> 'f \<Rightarrow> 'f"
  f_mul :: "'f \<Rightarrow> 'f \<Rightarrow> 'f"
  f_div :: "'f \<Rightarrow> 'f \<Rightarrow> 'f"
  f_eq :: "'f \<Rightarrow> 'f \<Rightarrow> bool"
  f_of_int :: "int64 \<Rightarrow> 'f"
  f_to_int :: "'f \<Rightarrow> int64"
  f_is_zero :: "'f \<Rightarrow> bool"
  f_round :: "'f \<Rightarrow> 'f"
  f_floor :: "'f \<Rightarrow> 'f"
  f_ceil :: "'f \<Rightarrow> 'f"
  sprint :: "('f, 't) gval option \<Rightarrow> string"
  unquote :: "string \<Rightarrow> string option"
  json_unmarshal :: "string \<Rightarrow> ('f, 't) gval option option"
  call_method :: "('f, 't) gval \<Rightarrow> string \<Rightarrow> bool option"
  to_lower :: "string \<Rightarrow> string"
  time_now :: "'t"
  time_add :: "'t \<Rightarrow> int64 \<Rightarrow> 't"
  time_unix :: "int64 \<Rightarrow> int64 \<Rightarrow> 't"
  time_unix_milli :: "int64 \<Rightarrow> 't"
  time_zero :: "'t"
  time_is_zero :: "'t \<Rightarrow> bool"

text \<open>\<open>reflect.Zero(t)\<close>: the zero value of a type.\<close>

fun zero :: "('f, 't) env \<Rightarrow> gtype \<Rightarrow> ('f, 't) gval" where
  "zero E TBool = GBool False"
| "zero E TInt = GInt 0"
| "zero E TInt64 = GInt64 0"
| "zero E TFloat64 = GFloat (f_of_int E 0)"
| "zero E TString = GString []"
| "zero E TTime = GTime (time_zero E)"
| "zero E (TPtr t) = GPtr t None"
| "zero E (TSlice t) = GSlice t None"
| "zero E (TMap k t) = GMap k t None"
| "zero E TInterface = GIface None"
| "zero E TValue = GValue None"
| "zero E TRType = GType None"

text \<open>\<open>reflect.Value.IsZero\<close> on a valid Value.\<close>

fun IsZero :: "('f, 't) env \<Rightarrow> ('f, 't) gval \<Rightarrow> bool" where
  "IsZero E (GBool b) = (\<not> b)"
| "IsZero E (GInt n) = (n = 0)"
| "IsZero E (GInt64 n) = (n = 0)"
| "IsZero E (GFloat x) = f_is_zero E x"
| "IsZero E (GString s) = (s = [])"
| "IsZero E (GTime t) = time_is_zero E t"
| "IsZero E (GPtr t p) = (p = None)"
| "IsZero E (GSlice t xs) = (xs = None)"
| "IsZero E (GMap k t m) = (m = None)"
| "IsZero E (GIface i) = (i = None)"
| "IsZero E (GValue v) = (v = None)"
| "IsZero E (GType t) = (t = None)"

text \<open>\<open>v.Kind() == reflect.Slice && v.Len() == 0\<close>, and the same for maps.\<close>

fun empty_slice :: "('f, 't) gval \<Rightarrow> bool" where
  "empty_slice (GSlice t xs) = (xs = None \<or> xs = Some [])"
| "empty_slice v = False"

fun empty_map :: "('f, 't) gval \<Rightarrow> bool" where
  "empty_map (GMap k t m) = (m = None \<or> m = Some [])"
| "empty_map v = False"

section \<open>Pointer indirection of a field\<close>

text \<open>
  A destination field is the value stored in it; its static type is the type of that
  value. \<open>stripPointer\<close> (util.go) follows the field through its pointer layers and
  allocates each nil layer on the way: \<open>alloc_ptrs\<close> is its effect on the field,
  \<open>inner_get\<close> the slot it returns and \<open>inner_set\<close> a write to that slot.
\<close>

fun new_chain :: "('f, 't) env \<Rightarrow> gtype \<Rightarrow> ('f, 't) gval" where
  "new_chain E (TPtr t) = GPtr t (Some (new_chain E t))"
| "new_chain E t = zero E t"

fun alloc_ptrs :: "('f, 't) env \<Rightarrow> ('f, 't) gval \<Rightarrow> ('f, 't) gval" where
  "alloc_ptrs E (GPtr t None) = GPtr t (Some (new_chain E t))"
| "alloc_ptrs E (GPtr t (Some v)) = GPtr t (Some (alloc_ptrs E v))"
| "alloc_ptrs E v = v"

fun inner_get :: "('f, 't) gval \<Rightarrow> ('f, 't) gval" where
  "inner_get (GPtr t (Some v)) = inner_get v"
| "inner_get v = v"

fun inner_set :: "('f, 't) gval \<Rightarrow> ('f, 't) gval \<Rightarrow> ('f, 't) gval" where
  "inner_set (GPtr t (Some v)) x = GPtr t (Some (inner_set v x))"
| "inner_set v x = x"

fun elem :: "gtype \<Rightarrow> gtype" where
  "elem (TSlice t) = t"
| "elem (TMap k t) = t"
| "elem (TPtr t) = t"
| "elem t = t"

fun key :: "gtype \<Rightarrow> gtype" where
  "key (TMap k t) = k"
| "key t = t"


section \<open>Errors and panics\<close>

text \<open>
  The errors the code returns with \<open>fmt.Errorf\<close>, one constructor for each message, and
  the panics: those the code raises itself and those of the Go runtime and of
  \<open>reflect\<close>. A panic is not an error value: nothing in the package recovers it, so it
  unwinds through \<open>Unmarshal\<close> into the caller.
\<close>

datatype err =
    ErrDuration string
  | ErrTime string
  | ErrNotSlice string kind
  | ErrNotMap string kind
  | ErrAlreadyString string
  | ErrUnquoting string
  | ErrNotString string
  | ErrNotNumber string
  | ErrInvalidArgument string string
  | ErrRoundArgument string

datatype panic =
    UnknownTagOption string
  | InvalidFunction string
  | UnknownNumericalOperation string
  | RequiresArgument string
  | DivideByZero
  | IndexOutOfRange
  | SliceBounds
  | ReflectZeroValue string
  | NotAssignable gtype gtype

datatype 'a res = Ok 'a | Err err | Panic panic

datatype ret = RetNil | RetErr err | RetPanic panic

section \<open>Type coercion helpers\<close>

definition compareInterfaceValue :: "('f, 't) env \<Rightarrow> ('f, 't) gval option \<Rightarrow> string \<Rightarrow> bool" where
  "compareInterfaceValue E value arg =
     (case value of
        Some (GBool v) \<Rightarrow> (arg = ''true'' \<and> v) \<or> (arg = ''false'' \<and> \<not> v)
      | Some (GInt v) \<Rightarrow> (case Atoi arg of None \<Rightarrow> False | Some argInt \<Rightarrow> v = argInt)
      | Some (GFloat v) \<Rightarrow>
          (case parseFloat E arg of None \<Rightarrow> False | Some argFloat \<Rightarrow> f_eq E v argFloat)
      | _ \<Rightarrow> False)"

definition parseDuration :: "('f, 't) env \<Rightarrow> string \<Rightarrow> string \<Rightarrow> int64 option" where
  "parseDuration E value unit =
     (case parseFloat E value of
        None \<Rightarrow> None
      | Some seconds \<Rightarrow>
          Some (if unit = ''nanoseconds'' then f_to_int E seconds
                else if unit = ''microseconds'' then f_to_int E (f_mul E seconds (f_of_int E 1000))
                else if unit = ''milliseconds'' then f_to_int E (f_mul E seconds (f_of_int E 1000000))
                else if unit = ''minutes'' then f_to_int E (f_mul E seconds (f_of_int E 60000000000))
                else if unit = ''hours'' then f_to_int E (f_mul E seconds (f_of_int E 3600000000000))
                else f_to_int E (f_mul E seconds (f_of_int E 1000000000))))"

definition parseTime :: "('f, 't) env \<Rightarrow> string \<Rightarrow> string \<Rightarrow> 't option" where
  "parseTime E value unit =
     (case parseFloat E value of
        None \<Rightarrow> None
      | Some unixTime \<Rightarrow>
          Some (if unit = ''nanoseconds'' then time_unix E 0 (f_to_int E unixTime)
                else if unit = ''microseconds'' then
                  time_unix E 0 (f_to_int E (f_mul E unixTime (f_of_int E 1000)))
                else if unit = ''milliseconds'' then time_unix_milli E (f_to_int E unixTime)
                else if unit = ''minutes'' then
                  time_unix E (f_to_int E (f_mul E unixTime (f_of_int E 60))) 0
                else if unit = ''hours'' then
                  time_unix E (f_to_int E (f_mul E unixTime (f_of_int E 3600))) 0
                else time_unix E (f_to_int E unixTime) 0))"

text \<open>
  The two closures \<open>op1\<close> (on \<open>int64\<close>) and \<open>op2\<close> (on \<open>float64\<close>) that
  \<open>performArithmeticOperation\<close> selects by the clause name. Integer arithmetic wraps
  around; integer division truncates towards zero and panics when the divisor is 0.
\<close>

definition op1 :: "string \<Rightarrow> int64 \<Rightarrow> int64 \<Rightarrow> int64 res" where
  "op1 name a b =
     (if name = ''add'' then Ok (a + b)
      else if name = ''subtract'' then Ok (a - b)
      else if name = ''multiply'' then Ok (a * b)
      else if b = 0 then Panic DivideByZero
      else Ok (word_of_int (sint a sdiv sint b)))"

definition op2 :: "('f, 't) env \<Rightarrow> string \<Rightarrow> 'f \<Rightarrow> 'f \<Rightarrow> 'f" where
  "op2 E name a b =
     (if name = ''add'' then f_add E a b
      else if name = ''subtract'' then f_sub E a b
      else if name = ''multiply'' then f_mul E a b
      else f_div E a b)"

definition performArithmeticOperation ::
  "('f, 't) env \<Rightarrow> ('f, 't) gval option \<Rightarrow> string list \<Rightarrow> bool \<Rightarrow> string \<Rightarrow> ('f, 't) gval option res" where
  "performArithmeticOperation E value parts inverted fieldName =
     (case parts of
        [] \<Rightarrow> Panic IndexOutOfRange
      | p0 # _ \<Rightarrow>
          if p0 \<notin> set [''add'', ''subtract'', ''multiply'', ''divide''] then
            Panic (UnknownNumericalOperation p0)
          else if length parts < 2 then Panic (RequiresArgument p0)
          else
            (case ParseInt (parts ! 1) of
               Some conv \<Rightarrow>
                 (case value of
                    Some (GInt v) \<Rightarrow>
                      (case op1 p0 v conv of
                         Ok r \<Rightarrow> Ok (Some (GInt64 r))
                       | Err e \<Rightarrow> Err e
                       | Panic p \<Rightarrow> Panic p)
                  | Some (GFloat v) \<Rightarrow> Ok (Some (GFloat (op2 E p0 v (f_of_int E conv))))
                  | _ \<Rightarrow> Err (ErrNotNumber fieldName))
             | None \<Rightarrow>
                 (case parseFloat E (parts ! 1) of
                    Some conv \<Rightarrow>
                      (case value of
                         Some (GInt v) \<Rightarrow> Ok (Some (GFloat (op2 E p0 (f_of_int E v) conv)))
                       | Some (GFloat v) \<Rightarrow> Ok (Some (GFloat (op2 E p0 v conv)))
                       | _ \<Rightarrow> Err (ErrNotNumber fieldName))
                  | None \<Rightarrow> Err (ErrInvalidArgument p0 (parts ! 1)))))"

text \<open>
  \<open>performNumericalOperation\<close>. In the \<open>float64\<close> case the assignment \<open>value = v\<close>
  after the branches overwrites what the branch for zero places stored, so with zero places
  the value comes back as it was.
\<close>

definition rounding :: "('f, 't) env \<Rightarrow> string \<Rightarrow> 'f \<Rightarrow> 'f" where
  "rounding E name x =
     (if name = ''round'' then f_round E x else if name = ''floor'' then f_floor E x else f_ceil E x)"

definition shifted :: "('f, 't) env \<Rightarrow> string \<Rightarrow> bool \<Rightarrow> nat \<Rightarrow> 'f \<Rightarrow> 'f" where
  "shifted E name inverted places v =
     (let ten = f_of_int E 10 in
      if inverted then
        ((\<lambda>x. f_mul E x ten) ^^ places) (rounding E name (((\<lambda>x. f_div E x ten) ^^ places) v))
      else
        ((\<lambda>x. f_div E x ten) ^^ places) (rounding E name (((\<lambda>x. f_mul E x ten) ^^ places) v)))"

definition performNumericalOperation ::
  "('f, 't) env \<Rightarrow> ('f, 't) gval option \<Rightarrow> string list \<Rightarrow> bool \<Rightarrow> string \<Rightarrow> ('f, 't) gval option res" where
  "performNumericalOperation E value parts inverted fieldName =
     (case parts of
        [] \<Rightarrow> Panic IndexOutOfRange
      | p0 # _ \<Rightarrow>
          if p0 \<notin> set [''round'', ''floor'', ''ceil''] then Panic (UnknownNumericalOperation p0)
          else
            (case (if length parts > 1 then ParseUint8 (parts ! 1) else Some 0) of
               None \<Rightarrow> Err (ErrRoundArgument (parts ! 1))
             | Some places \<Rightarrow>
                 (case value of
                    Some (GFloat v) \<Rightarrow>
                      Ok (Some (GFloat (if places = 0 then v else shifted E p0 inverted places v)))
                  | Some (GInt v) \<Rightarrow>
                      if inverted \<and> places > 0 then
                        Ok (Some (GFloat (shifted E p0 True places (f_of_int E v))))
                      else Ok value
                  | _ \<Rightarrow> Err (ErrNotNumber fieldName))))"


section \<open>The option dispatcher\<close>

text \<open>
  One pass of the loop body of \<open>processTag\<close> either goes on to the next option with a
  new current value or returns from \<open>processTag\<close> with the field as it then is.
\<close>

datatype ('f, 't) step =
    Continue "('f, 't) gval option"
  | Return ret "('f, 't) gval"

text \<open>
  The \<open>switch modified\<close> of \<open>processTag\<close>, case by case in the order of the source.
  \<open>field\<close> is the destination field after \<open>stripPointer\<close> and \<open>inner_get field\<close> is
  the variable \<open>inner\<close>. The results follow the source literally:
  \<^item> \<open>unix\<close> and \<open>equals\<close> store \<open>reflect.ValueOf(\<dots>)\<close>, a \<open>reflect.Value\<close> object, in
    the current value;
  \<^item> \<open>nilslice\<close> and \<open>nilmap\<close> store the result of \<open>reflect.SliceOf\<close> and
    \<open>reflect.MapOf\<close>, which is a \<open>reflect.Type\<close>;
  \<^item> \<open>reflect.ValueOf(nil)\<close> is the zero Value, on which \<open>IsZero\<close> and
    \<open>MethodByName\<close> panic.
\<close>

definition option_switch ::
  "('f, 't) env \<Rightarrow> ('f, 't) gval \<Rightarrow> ('f, 't) gval option \<Rightarrow> string list \<Rightarrow> string \<Rightarrow> bool \<Rightarrow> string
    \<Rightarrow> ('f, 't) step" where
  "option_switch E field value parts modified inverted fieldName =
     (let inner = inner_get field in
      if modified = ''duration'' then
        (case parseDuration E (sprint E value) (if length parts > 1 then parts ! 1 else ''seconds'') of
           None \<Rightarrow> Return (RetErr (ErrDuration fieldName)) field
         | Some duration \<Rightarrow>
             if inverted then Continue (Some (GTime (time_add E (time_now E) duration)))
             else Continue (Some (GInt64 duration)))
      else if modified = ''unix'' then
        (case parseTime E (sprint E value) (if length parts > 1 then parts ! 1 else ''seconds'') of
           None \<Rightarrow> Return (RetErr (ErrTime fieldName)) field
         | Some t \<Rightarrow> Continue (Some (GValue (Some (GTime t)))))
      else if modified = ''nilslice'' then
        (case value of
           None \<Rightarrow>
             if \<not> inverted then
               (if kind_of (typeof inner) \<noteq> KSlice then
                  Return (RetErr (ErrNotSlice fieldName (kind_of (typeof inner)))) field
                else Continue (Some (GType (Some (TSlice (elem (typeof inner)))))))
             else Continue value
         | Some v \<Rightarrow> if inverted \<and> empty_slice v then Continue None else Continue value)
      else if modified = ''nilmap'' then
        (case value of
           None \<Rightarrow>
             if \<not> inverted then
               (if kind_of (typeof inner) \<noteq> KMap then
                  Return (RetErr (ErrNotMap fieldName (kind_of (typeof inner)))) field
                else Continue (Some (GType (Some (TMap (key (typeof inner)) (elem (typeof inner)))))))
             else Continue value
         | Some v \<Rightarrow> if inverted \<and> empty_map v then Continue None else Continue value)
      else if modified = ''equals'' then
        (if length parts > 1 then
           (let arg = (case unquote E (parts ! 1) of None \<Rightarrow> parts ! 1 | Some a \<Rightarrow> a) in
            Continue (Some (GValue (Some (GBool (compareInterfaceValue E value arg = (\<not> inverted)))))))
         else Continue (Some (GValue (Some (GBool (IsZero E inner = (\<not> inverted)))))))
      else if modified = ''contains'' then Continue (Some (GBool True))
      else if modified = ''empty'' then
        (case value of
           None \<Rightarrow>
             Return (RetPanic (ReflectZeroValue (if length parts > 1 then ''MethodByName'' else ''IsZero'')))
               field
         | Some v \<Rightarrow>
             (case (if length parts > 1 then call_method E v (parts ! 1) else Some (IsZero E v)) of
                None \<Rightarrow> Return (RetPanic (InvalidFunction (parts ! 1))) field
              | Some empty' \<Rightarrow>
                  if (empty' \<and> \<not> inverted) \<or> (\<not> empty' \<and> inverted) then
                    Return RetNil (zero E (typeof field))
                  else Continue value))
      else if modified = ''fromstring'' then
        (case value of
           Some (GString strValue) \<Rightarrow>
             if inverted then Return (RetErr (ErrAlreadyString fieldName)) field
             else
               (case json_unmarshal E strValue of
                  None \<Rightarrow> Return (RetErr (ErrUnquoting fieldName)) field
                | Some decoded \<Rightarrow> Continue decoded)
         | _ \<Rightarrow>
             if \<not> inverted then Return (RetErr (ErrNotString fieldName)) field
             else Continue (Some (GString (sprint E value))))
      else if modified \<in> set [''add'', ''subtract'', ''multiply'', ''divide''] then
        (case performArithmeticOperation E value parts inverted fieldName of
           Ok v \<Rightarrow> Continue v
         | Err e \<Rightarrow> Return (RetErr e) field
         | Panic p \<Rightarrow> Return (RetPanic p) field)
      else if modified \<in> set [''round'', ''floor'', ''ceil''] then
        (case performNumericalOperation E value parts inverted fieldName of
           Ok v \<Rightarrow> Continue v
         | Err e \<Rightarrow> Return (RetErr e) field
         | Panic p \<Rightarrow> Return (RetPanic p) field)
      else Return (RetPanic (UnknownTagOption (parts ! 0))) field)"

text \<open>
  \<open>inner.Set(reflect.ValueOf(value))\<close> at the end of \<open>processTag\<close>: \<open>Set\<close> panics on
  the zero Value (a nil current value) and on a value whose type is not assignable to the
  type of the slot; any value is assignable to a slot of type \<open>interface{}\<close>.
\<close>

definition set_inner :: "('f, 't) gval \<Rightarrow> ('f, 't) gval option \<Rightarrow> ret \<times> ('f, 't) gval" where
  "set_inner field value =
     (case value of
        None \<Rightarrow> (RetPanic (ReflectZeroValue ''Set''), field)
      | Some v \<Rightarrow>
          if typeof (inner_get field) = TInterface then (RetNil, inner_set field (GIface (Some v)))
          else if typeof v = typeof (inner_get field) then (RetNil, inner_set field v)
          else (RetPanic (NotAssignable (typeof v) (typeof (inner_get field))), field))"

text \<open>
  The lines before the \<open>switch\<close>: \<open>inverted\<close> and \<open>modified\<close> are declared with their
  zero values and assigned only inside the \<open>if\<close> that tests for a trailing \<open>!\<close>.
\<close>

definition inverted_of :: "string list \<Rightarrow> bool" where
  "inverted_of parts = (length (parts ! 0) > 0 \<and> last (parts ! 0) = CHR ''!'')"

definition modified_of :: "string list \<Rightarrow> string" where
  "modified_of parts = (if inverted_of parts then butlast (parts ! 0) else [])"

text \<open>The loop over the options, then the final assignment.\<close>

fun run_options ::
  "('f, 't) env \<Rightarrow> ('f, 't) gval \<Rightarrow> ('f, 't) gval option \<Rightarrow> string list \<Rightarrow> string
    \<Rightarrow> ret \<times> ('f, 't) gval" where
  "run_options E field value [] fieldName = set_inner field value"
| "run_options E field value (opt # rest) fieldName =
     (case splitIgnoreQuoted opt CHR '','' of
        None \<Rightarrow> (RetPanic SliceBounds, field)
      | Some parts \<Rightarrow>
          if parts = [] then (RetPanic IndexOutOfRange, field)
          else
            (case option_switch E field value parts (modified_of parts) (inverted_of parts) fieldName of
               Continue v \<Rightarrow> run_options E field v rest fieldName
             | Return r f \<Rightarrow> (r, f)))"

definition processTag ::
  "('f, 't) env \<Rightarrow> ('f, 't) gval \<Rightarrow> ('f, 't) gval option \<Rightarrow> string list \<Rightarrow> string
    \<Rightarrow> ret \<times> ('f, 't) gval" where
  "processTag E field value options fieldName =
     run_options E (alloc_ptrs E field) value options fieldName"

section \<open>The field resolver and the decode loop\<close>

text \<open>
  What \<open>processField\<close> reads of a struct field's metadata: its name and the value of its
  \<open>json\<close> tag; \<open>exported\<close> is what \<open>field.CanSet()\<close> returns in \<open>Unmarshal\<close>. The
  document \<open>data\<close> is the map that \<open>Unmarshal\<close> gets from \<open>json.Unmarshal\<close> after it has
  lower-cased the keys.
\<close>

record struct_field =
  Name :: string
  json_tag :: string
  exported :: bool

definition field_name :: "string list \<Rightarrow> struct_field \<Rightarrow> string" where
  "field_name msonTag metaData =
     (if msonTag ! 0 = [] then Name metaData
      else if msonTag ! 0 = ''_'' then Name metaData
      else msonTag ! 0)"

definition processField ::
  "('f, 't) env \<Rightarrow> ('f, 't) gval \<Rightarrow> struct_field \<Rightarrow> (string \<rightharpoonup> ('f, 't) gval option)
    \<Rightarrow> ret \<times> ('f, 't) gval" where
  "processField E field metaData data =
     (case splitIgnoreQuoted (json_tag metaData) CHR '','' of
        None \<Rightarrow> (RetPanic SliceBounds, field)
      | Some msonTag \<Rightarrow>
          if length msonTag = 0 \<or> msonTag ! 0 = ''-'' then (RetNil, field)
          else
            (case data (to_lower E (field_name msonTag metaData)) of
               Some value \<Rightarrow> processTag E field value (tl msonTag) (field_name msonTag metaData)
             | None \<Rightarrow> (RetNil, zero E (typeof field))))"

text \<open>
  The loop of \<open>Unmarshal\<close> over the fields of the destination struct: it stops at the
  first error, and a panic leaves it at once. Fields already written keep their values.
\<close>

fun Unmarshal_fields ::
  "('f, 't) env \<Rightarrow> (string \<rightharpoonup> ('f, 't) gval option) \<Rightarrow> (struct_field \<times> ('f, 't) gval) list
    \<Rightarrow> ret \<times> (struct_field \<times> ('f, 't) gval) list" where
  "Unmarshal_fields E data [] = (RetNil, [])"
| "Unmarshal_fields E data ((metaData, field) # rest) =
     (if exported metaData then
        (case processField E field metaData data of
           (RetNil, field') \<Rightarrow>
             (case Unmarshal_fields E data rest of (r, rest') \<Rightarrow> (r, (metaData, field') # rest'))
         | (r, field') \<Rightarrow> (r, (metaData, field') # rest))
      else
        (case Unmarshal_fields E data rest of (r, rest') \<Rightarrow> (r, (metaData, field) # rest')))"


section \<open>Clause names\<close>

text \<open>
  The operation names of the \<open>switch\<close>, and a clause name without its trailing negation
  marker, as the specification speaks of it.
\<close>

definition op_names :: "string list" where
  "op_names =
     [''duration'', ''unix'', ''nilslice'', ''nilmap'', ''equals'', ''contains'', ''empty'',
      ''fromstring'', ''add'', ''subtract'', ''multiply'', ''divide'', ''round'', ''floor'', ''ceil'']"

definition stripped :: "string \<Rightarrow> string" where
  "stripped name = (if name \<noteq> [] \<and> last name = CHR ''!'' then butlast name else name)"

section \<open>A library instance for concrete runs\<close>

text \<open>
  To run the model on concrete inputs the library parameters need values. In \<open>ex_env\<close>
  a \<open>float64\<close> is a rational number and a \<open>time.Time\<close> a number of nanoseconds since
  the Unix epoch; \<open>parseFloat\<close> knows the literals of the examples, all of which
  \<open>float64\<close> represents exactly, as it does the results computed from them. The general
  theorems below hold for every instance, not only this one.
\<close>

definition ascii_lower :: "char \<Rightarrow> char" where
  "ascii_lower c =
     (let n = (of_char c :: nat) in if 65 \<le> n \<and> n \<le> 90 then char_of (n + 32) else c)"

definition ex_env :: "(rat, int) env" where
  "ex_env = \<lparr>
     parseFloat = map_of [(''0'', 0), (''1'', 1), (''2'', 2), (''5'', 5), (''2.5'', 5 / 2)],
     f_add = (+), f_sub = (-), f_mul = (*), f_div = (/), f_eq = (=),
     f_of_int = (\<lambda>n. of_int (sint n)),
     f_to_int = (\<lambda>x. word_of_int (sgn \<lfloor>x\<rfloor> * \<lfloor>\<bar>x\<bar>\<rfloor>)),
     f_is_zero = (\<lambda>x. x = 0),
     f_round = (\<lambda>x. of_int (round x)),
     f_floor = (\<lambda>x. of_int \<lfloor>x\<rfloor>),
     f_ceil = (\<lambda>x. of_int \<lceil>x\<rceil>),
     sprint = (\<lambda>v. case v of Some (GString s) \<Rightarrow> s | _ \<Rightarrow> ''?''),
     unquote = (\<lambda>s. if 2 \<le> length s \<and> hd s = CHR 0x22 \<and> last s = CHR 0x22
                      \<and> CHR 0x22 \<notin> set (butlast (tl s)) \<and> CHR 0x5C \<notin> set s
                    then Some (butlast (tl s)) else None),
     json_unmarshal = (\<lambda>s. None),
     call_method = (\<lambda>v name. None),
     to_lower = map ascii_lower,
     time_now = 0,
     time_add = (\<lambda>t d. t + sint d),
     time_unix = (\<lambda>s n. sint s * 1000000000 + sint n),
     time_unix_milli = (\<lambda>m. sint m * 1000000),
     time_zero = - 62135596800000000000,
     time_is_zero = (\<lambda>t. t = - 62135596800000000000) \<rparr>"


section \<open>Properties of the tokenizer\<close>

lemma segments_from_nonempty: "segments_from sep inQ tok cs \<noteq> []"
  by (induction cs arbitrary: inQ tok) auto

lemma join_Cons: "ts \<noteq> [] \<Longrightarrow> join sep (t # ts) = t @ sep # join sep ts"
  by (cases ts) auto

lemma join_segments_from: "join sep (segments_from sep inQ tok cs) = tok @ cs"
  by (induction cs arbitrary: inQ tok) (auto simp: join_Cons segments_from_nonempty)

lemma split_loop_segments:
  "start \<le> i \<Longrightarrow> i \<le> length s \<Longrightarrow> end' = i \<Longrightarrow>
   split_loop s sep i parts start end' inQ =
     Some (parts @ map TrimSpace (segments_from sep inQ (take (i - start) (drop start s)) (drop i s)))"
proof (induction s sep i parts start end' inQ rule: split_loop.induct)
  case (1 s sep i parts start end' inQuotes)
  show ?case
  proof (cases "i < length s")
    case False
    with "1.prems" show ?thesis
      by (subst split_loop.simps) (simp add: slice_def)
  next
    case True
    have d: "drop i s = s ! i # drop (Suc i) s"
      using True by (simp add: Cons_nth_drop_Suc)
    have t: "take (Suc i - start) (drop start s) = take (i - start) (drop start s) @ [s ! i]"
      using True "1.prems"(1) by (simp add: Suc_diff_le take_Suc_conv_app_nth)
    have sl: "slice s start end' = Some (take (i - start) (drop start s))"
      using True "1.prems" by (simp add: slice_def)
    show ?thesis
    proof (cases "s ! i = CHR 0x22")
      case q: True
      have "split_loop s sep i parts start end' inQuotes =
            split_loop s sep (i + 1) parts start (i + 1) (\<not> inQuotes)"
        using True q by (subst split_loop.simps) simp
      also have "\<dots> = Some (parts @ map TrimSpace (segments_from sep (\<not> inQuotes)
                     (take (i + 1 - start) (drop start s)) (drop (i + 1) s)))"
        using "1.IH"(1)[OF True q] "1.prems"(1) True by simp
      finally show ?thesis using d t q by simp
    next
      case nq: False
      show ?thesis
      proof (cases "s ! i = sep")
        case sp: True
        show ?thesis
        proof (cases inQuotes)
          case iq: False
          have "split_loop s sep i parts start end' inQuotes =
            split_loop s sep (i + 1) (parts @ [TrimSpace (take (i - start) (drop start s))]) (i + 1) (i + 1) inQuotes"
            using True nq sp iq sl by (subst split_loop.simps) simp
          also have "\<dots> = Some ((parts @ [TrimSpace (take (i - start) (drop start s))]) @
               map TrimSpace (segments_from sep inQuotes (take (i + 1 - (i + 1)) (drop (i + 1) s)) (drop (i + 1) s)))"
            using "1.IH"(2)[OF True nq sp _ sl] iq True by simp
          finally show ?thesis using d nq sp iq by simp
        next
          case iq: True
          have "split_loop s sep i parts start end' inQuotes =
            split_loop s sep (i + 1) parts start (i + 1) inQuotes"
            using True nq sp iq by (subst split_loop.simps) simp
          also have "\<dots> = Some (parts @ map TrimSpace (segments_from sep inQuotes
                     (take (i + 1 - start) (drop start s)) (drop (i + 1) s)))"
            using "1.IH"(3)[OF True nq sp] iq "1.prems"(1) True by simp
          finally show ?thesis using d t nq sp iq by simp
        qed
      next
        case nsp: False
        have "split_loop s sep i parts start end' inQuotes =
            split_loop s sep (i + 1) parts start (i + 1) inQuotes"
          using True nq nsp by (subst split_loop.simps) simp
        also have "\<dots> = Some (parts @ map TrimSpace (segments_from sep inQuotes
                     (take (i + 1 - start) (drop start s)) (drop (i + 1) s)))"
          using "1.IH"(4)[OF True nq nsp] "1.prems"(1) True by simp
        finally show ?thesis using d t nq nsp by simp
      qed
    qed
  qed
qed

lemma splitIgnoreQuoted_spec: "splitIgnoreQuoted s sep = Some (tokens_spec s sep)"
  using split_loop_segments[of 0 0 s 0 sep "[]" False]
  by (simp add: splitIgnoreQuoted_def tokens_spec_def segments_def)

lemma leading_SomeD: "leading rs s = Some r \<Longrightarrow> r \<in> set rs \<and> prefix r s"
  by (auto simp: leading_def find_Some_iff prefix_def) (metis append_take_drop_id)

lemma leading_None_iff: "leading rs s = None \<longleftrightarrow> (\<forall>r\<in>set rs. \<not> prefix r s)"
proof -
  have "\<And>r. take (length r) s = r \<longleftrightarrow> prefix r s"
    by (metis append_take_drop_id prefix_def append_eq_conv_conj)
  then show ?thesis by (auto simp: leading_def find_None_iff)
qed

lemma drop_runes_no_leading: "[] \<notin> set rs \<Longrightarrow> leading rs (drop_runes rs s) = None"
proof (induction rs s rule: drop_runes.induct)
  case (1 rs s)
  show ?case
  proof (cases "leading rs s")
    case None
    then show ?thesis by (subst drop_runes.simps) simp
  next
    case (Some r)
    with "1.prems" have "r \<noteq> []" using leading_SomeD by blast
    with Some "1.IH" "1.prems" show ?thesis by (subst drop_runes.simps) simp
  qed
qed

lemma drop_runes_suffix: "suffix (drop_runes rs s) s"
proof (induction rs s rule: drop_runes.induct)
  case (1 rs s)
  show ?case
  proof (cases "leading rs s")
    case None
    then show ?thesis by (subst drop_runes.simps) simp
  next
    case (Some r)
    show ?thesis
    proof (cases "r = []")
      case True
      with Some show ?thesis by (subst drop_runes.simps) simp
    next
      case False
      with Some "1.IH" have "suffix (drop_runes rs (drop (length r) s)) (drop (length r) s)" by simp
      then have "suffix (drop_runes rs (drop (length r) s)) s"
        using suffix_drop suffix_order.trans by blast
      with Some False show ?thesis by (subst drop_runes.simps) simp
    qed
  qed
qed

lemma leading_None_prefix: "leading rs s = None \<Longrightarrow> prefix p s \<Longrightarrow> leading rs p = None"
  unfolding leading_None_iff using prefix_order.trans by blast

lemma space_runes_nonempty: "[] \<notin> set space_runes" "[] \<notin> set (map rev space_runes)"
  by (simp_all add: space_runes_def)

lemma trimmed_TrimSpace: "trimmed (TrimSpace s)"
proof -
  let ?l = "TrimLeft s"
  have a: "leading space_runes ?l = None"
    unfolding TrimLeft_def by (rule drop_runes_no_leading[OF space_runes_nonempty(1)])
  have "suffix (drop_runes (map rev space_runes) (rev ?l)) (rev ?l)"
    by (rule drop_runes_suffix)
  then have "prefix (TrimRight ?l) ?l"
    unfolding TrimRight_def by (metis rev_rev_ident suffix_to_prefix)
  with a have b: "leading space_runes (TrimSpace s) = None"
    unfolding TrimSpace_def by (rule leading_None_prefix)
  have c: "leading (map rev space_runes) (rev (TrimSpace s)) = None"
    unfolding TrimSpace_def TrimRight_def rev_rev_ident
    by (rule drop_runes_no_leading[OF space_runes_nonempty(2)])
  from b c show ?thesis by (simp add: trimmed_def)
qed

lemma TrimSpace_Nil: "TrimSpace [] = []"
  by (simp add: TrimSpace_def TrimLeft_def TrimRight_def leading_def space_runes_def)

text \<open>
  C7. For every input string and delimiter byte, \<open>splitIgnoreQuoted\<close> returns (no slice
  is ever out of range, whatever the quotes, so an unmatched quote is tolerated); what it
  returns are the segments of the left-to-right scan that toggles the inside-quotes flag at
  each quote character and cuts only at a delimiter outside quotes, each trimmed of leading
  and trailing white space; joining the untrimmed segments with the delimiter gives the
  input back, so quote characters stay in their tokens and nothing but the cutting
  delimiters is removed; and the empty input gives exactly one empty token.
\<close>

theorem splitIgnoreQuoted_quoted_aware:
  "splitIgnoreQuoted s sep = Some (map TrimSpace (segments sep s))
   \<and> join sep (segments sep s) = s
   \<and> (\<forall>t \<in> set (map TrimSpace (segments sep s)). trimmed t)
   \<and> splitIgnoreQuoted [] sep = Some [[]]"
proof -
  have a: "splitIgnoreQuoted s sep = Some (map TrimSpace (segments sep s))"
    using splitIgnoreQuoted_spec[of s sep] by (simp add: tokens_spec_def)
  have b: "join sep (segments sep s) = s"
    by (simp add: segments_def join_segments_from)
  have c: "\<forall>t \<in> set (map TrimSpace (segments sep s)). trimmed t"
    by (auto simp: trimmed_TrimSpace)
  have d: "splitIgnoreQuoted [] sep = Some [[]]"
    using splitIgnoreQuoted_spec[of "[]" sep]
    by (simp add: tokens_spec_def segments_def TrimSpace_Nil)
  from a b c d show ?thesis by blast
qed

theorem splitIgnoreQuoted_quoted_aware_witness:
  "splitIgnoreQuoted '' a , \"b,c'' CHR '','' = Some [''a'', ''\"b,c'']
   \<and> join CHR '','' ['' a '', '' \"b,c''] = '' a , \"b,c''
   \<and> trimmed ''a'' \<and> trimmed ''\"b,c''"
proof -
  have s: "segments CHR '','' '' a , \"b,c'' = ['' a '', '' \"b,c'']"
    by (simp add: segments_def)
  have t: "map TrimSpace ['' a '', '' \"b,c''] = [''a'', ''\"b,c'']"
    by code_simp
  show ?thesis
    using splitIgnoreQuoted_quoted_aware[of "'' a , \"b,c''" "CHR '',''"]
    unfolding s t by simp
qed

end
